theory Spec2Isabelle
  imports Complex_Main "HOL-Library.Word"
begin

section \<open>Bass-to-Arduino bridge: the processing loop of script.py\<close>

text \<open>
  The development embeds the processing loop of \<^verbatim>\<open>src/script.py\<close> (lines 97-153) and the
  constants it reads (lines 61-69). Python's \<^verbatim>\<open>float\<close> values (\<^verbatim>\<open>gain\<close>, \<^verbatim>\<open>bass_energy\<close>) are
  idealised as \<^typ>\<open>real\<close>: every decimal literal of the source stands for the exact decimal,
  and no binary64 rounding is modelled. Python's \<^verbatim>\<open>int\<close> values (\<^verbatim>\<open>val\<close>, \<^verbatim>\<open>prevVal\<close>,
  \<^verbatim>\<open>gainTimer\<close>) are \<^typ>\<open>int\<close>; the captured samples are 16-bit words.
\<close>

subsection \<open>Constants (lines 61-69)\<close>

definition CHUNK :: nat where
  "CHUNK = 1024"

definition RATE :: int where
  "RATE = 44100"

definition BASS_LOW :: int where
  "BASS_LOW = 30"

definition BASS_HIGH :: int where
  "BASS_HIGH = 200"

definition timerGainMaxHigh :: int where
  "timerGainMaxHigh = 60"

definition timerGainMaxMid :: int where
  "timerGainMaxMid = 120"

definition timerGainMaxLow :: int where
  "timerGainMaxLow = 90"

subsection \<open>The controller state\<close>

text \<open>
  The three module-level variables the loop mutates: \<^verbatim>\<open>gain\<close> (line 69), \<^verbatim>\<open>gainTimer\<close>
  (line 65) and \<^verbatim>\<open>prevVal\<close> (line 98).
\<close>

record GainState =
  gain :: real
  gainTimer :: int
  prevVal :: int

definition init_state :: GainState where
  "init_state = \<lparr>gain = 0.006, gainTimer = 0, prevVal = 0\<rparr>"

subsection \<open>Normalisation to a byte value (lines 115 and 140)\<close>

text \<open>\<^verbatim>\<open>np.clip(x, a_min, a_max)\<close> is \<^verbatim>\<open>minimum(maximum(x, a_min), a_max)\<close>.\<close>

definition np_clip :: "real \<Rightarrow> real \<Rightarrow> real \<Rightarrow> real" where
  "np_clip x a_min a_max = min (max x a_min) a_max"

text \<open>Python's \<^verbatim>\<open>int(x)\<close> on a float drops the fractional part (truncation towards zero).\<close>

definition py_int :: "real \<Rightarrow> int" where
  "py_int x = (if 0 \<le> x then \<lfloor>x\<rfloor> else \<lceil>x\<rceil>)"

text \<open>\<^verbatim>\<open>val = int(np.clip(bass_energy * gain, 0, 255))\<close>\<close>

definition to_val :: "real \<Rightarrow> real \<Rightarrow> int" where
  "to_val bass_energy g = py_int (np_clip (bass_energy * g) 0 255)"

subsection \<open>The adaptive branch (lines 115-138)\<close>

text \<open>
  Lines 117-120: the two edge checks on \<^verbatim>\<open>prevVal\<close> and \<^verbatim>\<open>val\<close>. Python's chained comparison
  \<^verbatim>\<open>a < 205 < b\<close> is \<^verbatim>\<open>a < 205 and 205 < b\<close>. The function returns the timer after the checks.
\<close>

definition edge_reset :: "int \<Rightarrow> int \<Rightarrow> int \<Rightarrow> int" where
  "edge_reset pv val t =
     (if pv < 205 \<and> 205 < val then 0
      else if val < 195 \<and> 195 < pv then 0
      else t)"

text \<open>
  Lines 121-138: the \<^verbatim>\<open>if/elif\<close> chain over \<^verbatim>\<open>val\<close>, acting on the pair (timer, gain).
  \<^verbatim>\<open>float(gainTimer*2)/timerGainMaxHigh\<close> is a true division of the incremented timer.
\<close>

definition zone_update :: "real \<Rightarrow> int \<Rightarrow> int \<times> real \<Rightarrow> int \<times> real" where
  "zone_update bass_energy val tg =
     (case tg of (t, g) \<Rightarrow>
        if val > 230 then
          (let t' = t + 1 in
             if t' > timerGainMaxHigh
             then (t', g - 0.0008 * (real_of_int (t' * 2) / real_of_int timerGainMaxHigh))
             else (t', g))
        else if 205 < val \<and> val < 231 then
          (let t' = t + 1 in
             if t' > timerGainMaxHigh
             then (t', g - 0.0004 * (real_of_int (t' * 2) / real_of_int timerGainMaxHigh))
             else (t', g))
        else if 80 < val \<and> val < 195 then
          (let t' = t + 1 in
             if t' > timerGainMaxMid then (t', g + 0.0005) else (t', g))
        else if bass_energy > 50 \<and> val < 81 then
          (let t' = t + 1 in
             if t' > timerGainMaxLow then (t', g + 0.009) else (t', g))
        else (0, g))"

text \<open>
  The whole adaptive branch, in the order of the source: line 115 computes \<^verbatim>\<open>val\<close>, line 116
  assigns \<^verbatim>\<open>prevVal = val\<close>, lines 117-120 run the edge checks on the variable \<^verbatim>\<open>prevVal\<close>
  as it stands then, lines 121-138 run the zone chain. The result is the value to send and
  the updated state.
\<close>

definition adaptive_update :: "real \<Rightarrow> GainState \<Rightarrow> int \<times> GainState" where
  "adaptive_update bass_energy s =
     (let val = to_val bass_energy (gain s);
          pv = val;
          t1 = edge_reset pv val (gainTimer s);
          tg = zone_update bass_energy val (t1, gain s)
      in (val, \<lparr>gain = snd tg, gainTimer = fst tg, prevVal = pv\<rparr>))"

text \<open>Lines 114-140: the branch on \<^verbatim>\<open>adaptiveGain\<close>.\<close>

definition controller :: "bool \<Rightarrow> real \<Rightarrow> GainState \<Rightarrow> int \<times> GainState" where
  "controller adaptiveGain bass_energy s =
     (if adaptiveGain then adaptive_update bass_energy s
      else (to_val bass_energy (gain s), s))"

text \<open>
  The controller alone, run over the energies of successive frames: the state after the
  updates of lines 114-140, one per energy value.
\<close>

fun controller_run :: "bool \<Rightarrow> real list \<Rightarrow> GainState \<Rightarrow> GainState" where
  "controller_run adaptiveGain [] s = s"
| "controller_run adaptiveGain (e # es) s =
     controller_run adaptiveGain es (snd (controller adaptiveGain e s))"

subsection \<open>The spectral analysis (lines 101-111)\<close>

text \<open>
  What the loop can raise. \<^verbatim>\<open>ValueError\<close>: \<^verbatim>\<open>np.fft.rfft\<close> on an empty array, or \<^verbatim>\<open>int\<close> on a
  NaN; \<^verbatim>\<open>ZeroDivisionError\<close>: the float division in \<^verbatim>\<open>rfftfreq\<close>; \<^verbatim>\<open>OverflowError\<close>:
  \<^verbatim>\<open>int.to_bytes\<close> on a value that does not fit; \<^verbatim>\<open>IOError\<close>: the capture read, when asked
  to raise on overflow; \<^verbatim>\<open>SerialException\<close>: the serial write.
\<close>

datatype error = ValueError | ZeroDivisionError | OverflowError | IOError | SerialException

text \<open>
  The value of \<^verbatim>\<open>bass_energy\<close>: a finite float, or the NaN that \<^verbatim>\<open>mean\<close> returns on an
  empty selection.
\<close>

datatype energy = Finite real | NaN

text \<open>\<^verbatim>\<open>np.frombuffer(data, dtype=np.int16).astype(np.float32)\<close>: every 16-bit sample, read
  as a signed integer, is exactly representable as a float.\<close>

definition to_float :: "16 word list \<Rightarrow> real list" where
  "to_float data = map (\<lambda>w. real_of_int (sint w)) data"

text \<open>
  \<^verbatim>\<open>np.hanning(M)\<close>, as numpy computes it: empty below 1, \<^verbatim>\<open>ones(1)\<close> at 1, otherwise
  \<^verbatim>\<open>0.5 + 0.5*cos(pi*n/(M-1))\<close> over \<^verbatim>\<open>n = arange(1-M, M, 2)\<close>.
\<close>

definition hanning :: "nat \<Rightarrow> real list" where
  "hanning M =
     (if M < 1 then []
      else if M = 1 then [1]
      else map (\<lambda>k. 0.5 + 0.5 * cos (pi * real_of_int (1 - int M + 2 * int k) / real (M - 1)))
             [0..<M])"

text \<open>
  \<^verbatim>\<open>np.fft.rfft(a)\<close>: the bins \<open>0 .. n div 2\<close> of the discrete Fourier transform
  \<open>A\<^sub>k = \<Sum>\<^sub>m a\<^sub>m exp(-2\<pi>i m k / n)\<close>; numpy raises \<^verbatim>\<open>ValueError\<close> on an empty input.
\<close>

definition dft_bin :: "real list \<Rightarrow> nat \<Rightarrow> complex" where
  "dft_bin a k =
     sum_list (map (\<lambda>m. complex_of_real (a ! m) *
                       cis (- 2 * pi * real m * real k / real (length a)))
                [0..<length a])"

definition rfft :: "real list \<Rightarrow> error + complex list" where
  "rfft a =
     (if length a < 1 then Inl ValueError
      else Inr (map (dft_bin a) [0..<length a div 2 + 1]))"

text \<open>
  \<^verbatim>\<open>np.fft.rfftfreq(n, d)\<close>, as numpy computes it: \<^verbatim>\<open>val = 1.0/(n*d)\<close>, then
  \<^verbatim>\<open>arange(0, n//2 + 1) * val\<close>.
\<close>

definition rfftfreq :: "nat \<Rightarrow> real \<Rightarrow> error + real list" where
  "rfftfreq n d =
     (if real n * d = 0 then Inl ZeroDivisionError
      else Inr (map (\<lambda>i. real i * (1 / (real n * d))) [0..<n div 2 + 1]))"

text \<open>Lines 106 and 110: the frequencies of the bins and the mask of the bass band.\<close>

definition bass_mask :: "nat \<Rightarrow> error + bool list" where
  "bass_mask n =
     (case rfftfreq n (1 / real_of_int RATE) of
        Inl e \<Rightarrow> Inl e
      | Inr freqs \<Rightarrow>
          Inr (map (\<lambda>f. f \<ge> real_of_int BASS_LOW \<and> f \<le> real_of_int BASS_HIGH) freqs))"

text \<open>\<^verbatim>\<open>magnitude[mask]\<close>: the entries at the positions where the mask holds.\<close>

definition boolean_index :: "'a list \<Rightarrow> bool list \<Rightarrow> 'a list" where
  "boolean_index xs bmask = map fst (filter snd (zip xs bmask))"

text \<open>\<^verbatim>\<open>.mean()\<close>: NaN (with a warning) on an empty array.\<close>

definition np_mean :: "real list \<Rightarrow> energy" where
  "np_mean xs = (if xs = [] then NaN else Finite (sum_list xs / real (length xs)))"

text \<open>Line 105, the operand of the transform: \<^verbatim>\<open>samples * np.hanning(len(samples))\<close>.\<close>

definition windowed :: "real list \<Rightarrow> real list" where
  "windowed samples = map2 (*) samples (hanning (length samples))"

text \<open>Lines 102-111, from the captured samples to \<^verbatim>\<open>bass_energy\<close>.\<close>

definition bass_energy_of :: "16 word list \<Rightarrow> error + energy" where
  "bass_energy_of data =
     (let samples = to_float data in
      case rfft (windowed samples) of
        Inl e \<Rightarrow> Inl e
      | Inr fft \<Rightarrow>
          (case bass_mask (length samples) of
             Inl e \<Rightarrow> Inl e
           | Inr bmask \<Rightarrow>
               (let magnitude = map cmod fft
                in Inr (np_mean (boolean_index magnitude bmask)))))"

subsection \<open>The loop (lines 97-153)\<close>

text \<open>
  What the environment does during one pass of \<^verbatim>\<open>while True\<close>: it delivers a block of
  samples, with or without a capture overflow, and the serial port accepts the byte or
  fails; or the user presses Ctrl+C.
\<close>

datatype event =
  Frame (frame_data: "16 word list") (overflowed: bool) (write_fails: bool)
| Interrupt

text \<open>
  \<^verbatim>\<open>stream.read(CHUNK, exception_on_overflow=...)\<close>: PyAudio raises on an input overflow
  only when asked to.
\<close>

definition stream_read :: "bool \<Rightarrow> 16 word list \<Rightarrow> bool \<Rightarrow> error + 16 word list" where
  "stream_read exception_on_overflow data ovf =
     (if exception_on_overflow \<and> ovf then Inl IOError else Inr data)"

text \<open>\<^verbatim>\<open>val.to_bytes(1, byteorder='big')\<close>\<close>

definition to_bytes1 :: "int \<Rightarrow> error + 8 word" where
  "to_bytes1 v = (if 0 \<le> v \<and> v < 256 then Inr (word_of_int v) else Inl OverflowError)"

text \<open>
  One pass of the loop body (lines 101-143): the outcome (the byte written, or the
  exception raised) and the controller state the pass leaves.
\<close>

definition iteration ::
  "bool \<Rightarrow> 16 word list \<Rightarrow> bool \<Rightarrow> bool \<Rightarrow> GainState \<Rightarrow> (error + 8 word) \<times> GainState" where
  "iteration adaptiveGain data ovf wfail s =
     (case stream_read False data ovf of
        Inl e \<Rightarrow> (Inl e, s)
      | Inr d \<Rightarrow>
          (case bass_energy_of d of
             Inl e \<Rightarrow> (Inl e, s)
           | Inr NaN \<Rightarrow> (Inl ValueError, s)
           | Inr (Finite e) \<Rightarrow>
               (case controller adaptiveGain e s of
                  (val, s') \<Rightarrow>
                    (case to_bytes1 val of
                       Inl err \<Rightarrow> (Inl err, s')
                     | Inr b \<Rightarrow> if wfail then (Inl SerialException, s') else (Inr b, s')))))"

text \<open>
  How the loop stands after the events so far: still running, left through the
  \<^verbatim>\<open>except KeyboardInterrupt\<close> handler, or left by an exception that no handler catches
  (the \<^verbatim>\<open>finally\<close> clause closes the devices in both cases).
\<close>

datatype status = Running | Stopped | Raised error

text \<open>
  The loop over a finite trace of events, with the state and the bytes written so far.
  An event after the loop has ended is never looked at.
\<close>

fun processing_loop ::
  "bool \<Rightarrow> event list \<Rightarrow> GainState \<times> 8 word list \<Rightarrow> status \<times> GainState \<times> 8 word list" where
  "processing_loop adaptiveGain [] (s, out) = (Running, s, out)"
| "processing_loop adaptiveGain (Interrupt # evs) (s, out) = (Stopped, s, out)"
| "processing_loop adaptiveGain (Frame data ovf wfail # evs) (s, out) =
     (case iteration adaptiveGain data ovf wfail s of
        (Inl e, s') \<Rightarrow> (Raised e, s', out)
      | (Inr b, s') \<Rightarrow> processing_loop adaptiveGain evs (s', out @ [b]))"

subsection \<open>The specification's formulas\<close>

text \<open>The candidate value in the specification's words: \<open>clamp(round(energy * gain), 0, 255)\<close>.\<close>

definition spec_candidate :: "real \<Rightarrow> real \<Rightarrow> int" where
  "spec_candidate e g = min (max (round (e * g)) 0) 255"

text \<open>
  The zone step in the specification's words (its section 4.2, step 3): five exclusive
  ranges of \<open>val\<close>, with the thresholds 60, 120 and 90 and the four step sizes.
\<close>

datatype zone = HighHigh | High | Mid | Low | Rest

definition spec_zone :: "real \<Rightarrow> int \<Rightarrow> zone" where
  "spec_zone e v =
     (if v > 230 then HighHigh
      else if 205 < v \<and> v \<le> 230 then High
      else if 80 < v \<and> v < 195 then Mid
      else if e > 50 \<and> v \<le> 80 then Low
      else Rest)"

fun spec_zone_step :: "zone \<Rightarrow> int \<times> real \<Rightarrow> int \<times> real" where
  "spec_zone_step HighHigh (t, g) =
     (t + 1, if t + 1 > 60 then g - 0.0008 * (real_of_int (t + 1) * 2 / 60) else g)"
| "spec_zone_step High (t, g) =
     (t + 1, if t + 1 > 60 then g - 0.0004 * (real_of_int (t + 1) * 2 / 60) else g)"
| "spec_zone_step Mid (t, g) = (t + 1, if t + 1 > 120 then g + 0.0005 else g)"
| "spec_zone_step Low (t, g) = (t + 1, if t + 1 > 90 then g + 0.009 else g)"
| "spec_zone_step Rest (t, g) = (0, g)"

text \<open>How many of the four zone conditions of the specification hold for a frame.\<close>

definition zones_matching :: "real \<Rightarrow> int \<Rightarrow> nat" where
  "zones_matching e v =
     of_bool (v > 230) + of_bool (205 < v \<and> v \<le> 230) + of_bool (80 < v \<and> v < 195)
     + of_bool (e > 50 \<and> v \<le> 80)"

text \<open>
  The energy in the specification's words (its section 4.1). The Hann window of length
  \<open>N\<close> is the raised cosine \<open>w\<^sub>m = (1 - cos(2\<pi>m / (N - 1))) / 2\<close>; a bin of the transform of the
  windowed frame is \<open>X\<^sub>k = \<Sum>\<^sub>m x\<^sub>m w\<^sub>m exp(-2\<pi>i m k / N)\<close>; the bins of the band are those
  whose frequency \<open>i * R / N\<close> lies in \<open>[30, 200]\<close>, both ends included; the energy is the
  arithmetic mean of the magnitudes \<open>|X\<^sub>i|\<close> over them. None of these four formulas refers to
  a definition of the analysis above.
\<close>

definition hann_window :: "nat \<Rightarrow> nat \<Rightarrow> real" where
  "hann_window N m = (1 - cos (2 * pi * real m / real (N - 1))) / 2"

definition band_bins :: "nat \<Rightarrow> nat set" where
  "band_bins N =
     {i. i \<le> N div 2 \<and> 30 \<le> real i * 44100 / real N \<and> real i * 44100 / real N \<le> 200}"

definition windowed_bin :: "16 word list \<Rightarrow> nat \<Rightarrow> complex" where
  "windowed_bin data k =
     (\<Sum>m<length data.
        complex_of_real (real_of_int (sint (data ! m)) * hann_window (length data) m) *
        cis (- 2 * pi * real m * real k / real (length data)))"

definition spec_energy :: "16 word list \<Rightarrow> real" where
  "spec_energy data =
     (\<Sum>i\<in>band_bins (length data). cmod (windowed_bin data i)) /
     real (card (band_bins (length data)))"

section \<open>Properties of the controller\<close>

subsection \<open>The candidate value\<close>

lemma py_int_clip: "py_int (np_clip x 0 255) = min (max \<lfloor>x\<rfloor> 0) 255"
proof -
  have nonneg: "0 \<le> np_clip x 0 255"
    by (simp add: np_clip_def)
  have "\<lfloor>min (max x 0) 255\<rfloor> = min (max \<lfloor>x\<rfloor> 0) 255"
    by (simp add: min_def max_def) linarith
  with nonneg show ?thesis
    by (simp add: py_int_def np_clip_def)
qed

lemma to_val_floor: "to_val e g = min (max \<lfloor>e * g\<rfloor> 0) 255"
  by (simp add: to_val_def py_int_clip)

lemma to_val_range: "0 \<le> to_val e g \<and> to_val e g \<le> 255"
  by (simp add: to_val_floor)

lemma fst_adaptive_update: "fst (adaptive_update e s) = to_val e (gain s)"
  by (simp add: adaptive_update_def Let_def)

lemma fst_controller: "fst (controller adaptiveGain e s) = to_val e (gain s)"
  by (simp add: controller_def fst_adaptive_update)

text \<open>
  C4. In both modes the value computed for a frame is an integer between 0 and 255,
  however large the product of energy and gain is. The bound needs no condition on the
  sign of the energy or of the gain, so it holds in particular for every non-negative
  energy and every positive gain.
\<close>

theorem output_byte_bounded:
  "0 \<le> fst (controller adaptiveGain e s) \<and> fst (controller adaptiveGain e s) \<le> 255"
  by (simp add: fst_controller to_val_range)

text \<open>
  C5, as stated: the candidate value is the product rounded to the nearest integer and
  then clamped. It fails at energy 100 and gain 0.006: the product is 0.6, which \<^verbatim>\<open>int\<close>
  truncates to 0 and rounding takes to 1.
\<close>

theorem candidate_round_counterexample:
  "fst (controller True 100 \<lparr>gain = 0.006, gainTimer = 0, prevVal = 0\<rparr>) = 0 \<and>
   fst (controller False 100 \<lparr>gain = 0.006, gainTimer = 0, prevVal = 0\<rparr>) = 0 \<and>
   spec_candidate 100 0.006 = 1"
  by (simp add: fst_controller to_val_def py_int_def np_clip_def spec_candidate_def round_def)

text \<open>
  C5, amended: in both modes the candidate value is the product of energy and gain
  clamped to the range from 0 to 255 and truncated, that is, rounded down to an integer
  (not to the nearest one): \<open>clamp(floor(energy * gain), 0, 255)\<close>.
\<close>

theorem candidate_truncates:
  "fst (controller adaptiveGain e s) = min (max \<lfloor>e * gain s\<rfloor> 0) 255"
  by (simp add: fst_controller to_val_floor)

subsection \<open>The fixed-gain mode\<close>

text \<open>
  C9. In the fixed-gain mode no pass of the loop changes the controller state: the
  controller returns the state it was given, and so does a whole pass of the loop body,
  whatever the frame and whether or not the pass ends in an exception. \<^verbatim>\<open>gain\<close>,
  \<^verbatim>\<open>gainTimer\<close> (and \<^verbatim>\<open>prevVal\<close>) are after the pass what they were before it.
\<close>

theorem fixed_gain_state_unchanged:
  "snd (controller False e s) = s \<and>
   snd (iteration False data ovf wfail s) = s"
  by (simp add: iteration_def stream_read_def controller_def split: sum.splits energy.splits)

subsection \<open>The adaptive mode\<close>

lemma edge_reset_same: "edge_reset v v t = t"
  by (simp add: edge_reset_def)

lemma zone_update_spec: "zone_update e v (t, g) = spec_zone_step (spec_zone e v) (t, g)"
  by (simp add: zone_update_def spec_zone_def Let_def timerGainMaxHigh_def
      timerGainMaxMid_def timerGainMaxLow_def)

text \<open>
  C1. The claim: when the previous output was below 205 and the new value is above 205
  (or the previous output above 195 and the new value below 195), the timer is reset
  to 0 on that frame. The code run from the initial state: ten frames of energy 30100
  (value 180) bring the timer to 10, and a frame of energy 35100 (value 210) then takes
  it to 11; ten frames of energy 35100 bring the timer to 10, and a frame of energy 30100
  then takes it to 11. Line 116 has overwritten \<^verbatim>\<open>prevVal\<close> with \<^verbatim>\<open>val\<close> before lines 117-120
  compare the two, so neither check can hold and the timer of the zone left is carried
  into the zone entered.
\<close>

theorem edge_reset_not_applied:
  "controller_run True (replicate 10 30100) init_state
     = \<lparr>gain = 0.006, gainTimer = 10, prevVal = 180\<rparr> \<and>
   controller_run True (replicate 10 30100 @ [35100]) init_state
     = \<lparr>gain = 0.006, gainTimer = 11, prevVal = 210\<rparr> \<and>
   controller_run True (replicate 10 35100) init_state
     = \<lparr>gain = 0.006, gainTimer = 10, prevVal = 210\<rparr> \<and>
   controller_run True (replicate 10 35100 @ [30100]) init_state
     = \<lparr>gain = 0.006, gainTimer = 11, prevVal = 180\<rparr>"
  by (simp add: eval_nat_numeral init_state_def controller_def adaptive_update_def Let_def
      edge_reset_def zone_update_def to_val_def py_int_def np_clip_def
      timerGainMaxHigh_def timerGainMaxMid_def timerGainMaxLow_def)

text \<open>
  C3. For every frame in adaptive mode at most one of the four zone conditions holds, and
  none of them holds exactly in the remaining case; the update is the step of the zone
  the frame falls in: the timer is incremented and, once it exceeds 60 (both high zones),
  120 (middle zone) or 90 (low zone), the gain is lowered by \<open>0.0008 * (timer * 2 / 60)\<close>
  or \<open>0.0004 * (timer * 2 / 60)\<close> or raised by 0.0005 or 0.009; in the remaining case the
  timer is set to 0 and the gain is kept.
\<close>

theorem adaptive_update_zones:
  "zones_matching e (to_val e (gain s)) \<le> 1 \<and>
   (zones_matching e (to_val e (gain s)) = 0 \<longleftrightarrow> spec_zone e (to_val e (gain s)) = Rest) \<and>
   adaptive_update e s =
     (let v = to_val e (gain s);
          tg = spec_zone_step (spec_zone e v) (gainTimer s, gain s)
      in (v, \<lparr>gain = snd tg, gainTimer = fst tg, prevVal = v\<rparr>))"
  by (simp add: adaptive_update_def Let_def edge_reset_same zone_update_spec
      zones_matching_def spec_zone_def)

text \<open>
  C2, as stated: the gain is strictly positive after every adaptive update, whatever the
  frames. It fails from the initial state (gain 0.006, timer 0) on 64 frames of energy
  1000000: the value is 255 on each of them, the timer passes 60 at frame 61, and the four
  decrements of frames 61 to 64 add up to \<open>0.0008 * 500 / 60\<close>, more than 0.006.
\<close>

theorem gain_positive_counterexample:
  "\<not> 0 < gain (controller_run True (replicate 64 1000000) init_state)"
  by (simp add: eval_nat_numeral init_state_def controller_def adaptive_update_def Let_def
      edge_reset_def zone_update_def to_val_def py_int_def np_clip_def
      timerGainMaxHigh_def timerGainMaxMid_def timerGainMaxLow_def)

text \<open>
  C2, amended: from a positive gain, an adaptive update leaves the gain strictly positive
  except in one case: the frame is in a high zone (value above 205), the incremented
  timer exceeds 60, and the gain is not larger than the decrement,
  \<open>0.0008 * (timer * 2 / 60)\<close> above 230 and \<open>0.0004 * (timer * 2 / 60)\<close> otherwise. The
  decrement has no floor.
\<close>

theorem gain_positive_iff:
  assumes "0 < gain s"
  shows "0 < gain (snd (adaptive_update e s)) \<longleftrightarrow>
     \<not> (205 < to_val e (gain s) \<and> 60 < gainTimer s + 1 \<and>
        gain s \<le> (if 230 < to_val e (gain s) then 0.0008 else 0.0004) *
                   (real_of_int (gainTimer s + 1) * 2 / 60))"
  using assms
  by (auto simp add: adaptive_update_def Let_def edge_reset_def zone_update_def
      timerGainMaxHigh_def timerGainMaxMid_def timerGainMaxLow_def)

theorem gain_positive_iff_witness:
  "0 < gain \<lparr>gain = 0.001, gainTimer = 60, prevVal = 255\<rparr> \<and>
   \<not> 0 < gain (snd (adaptive_update 1000000 \<lparr>gain = 0.001, gainTimer = 60, prevVal = 255\<rparr>))"
  using gain_positive_iff [of "\<lparr>gain = 0.001, gainTimer = 60, prevVal = 255\<rparr>" 1000000]
  by (simp add: to_val_def py_int_def np_clip_def)

section \<open>Properties of the spectral analysis\<close>

lemma length_hanning: "length (hanning n) = n"
  by (simp add: hanning_def)

lemma length_windowed: "length (windowed (to_float data)) = length data"
  by (simp add: windowed_def to_float_def length_hanning)

lemma rfft_windowed:
  "data \<noteq> [] \<Longrightarrow> rfft (windowed (to_float data)) =
     Inr (map (dft_bin (windowed (to_float data))) [0..<length data div 2 + 1])"
  by (simp add: rfft_def length_windowed)

lemma rfftfreq_RATE:
  "0 < n \<Longrightarrow> rfftfreq n (1 / real_of_int RATE) = Inr (map (\<lambda>i. real i * 44100 / real n) [0..<n div 2 + 1])"
  by (simp add: rfftfreq_def RATE_def)

lemma bass_mask_eq:
  "0 < n \<Longrightarrow> bass_mask n =
     Inr (map (\<lambda>i. 30 \<le> real i * 44100 / real n \<and> real i * 44100 / real n \<le> 200) [0..<n div 2 + 1])"
  by (simp add: bass_mask_def rfftfreq_RATE BASS_LOW_def BASS_HIGH_def)

lemma boolean_index_map: "boolean_index (map f xs) (map P xs) = map f (filter P xs)"
  by (induction xs) (simp_all add: boolean_index_def)

lemma bass_energy_of_empty: "bass_energy_of [] = Inl ValueError"
  by (simp add: bass_energy_of_def to_float_def windowed_def rfft_def)

lemma bass_energy_of_nonempty:
  assumes "data \<noteq> []"
  shows "bass_energy_of data =
     Inr (np_mean (map (\<lambda>k. cmod (dft_bin (windowed (to_float data)) k))
        (filter (\<lambda>i. 30 \<le> real i * 44100 / real (length data) \<and> real i * 44100 / real (length data) \<le> 200)
           [0..<length data div 2 + 1])))"
proof -
  have n: "0 < length data" using assms by simp
  have len: "length (to_float data) = length data"
    by (simp add: to_float_def)
  have "bass_energy_of data =
     Inr (np_mean (boolean_index (map cmod (map (dft_bin (windowed (to_float data))) [0..<length data div 2 + 1]))
       (map (\<lambda>i. 30 \<le> real i * 44100 / real (length data) \<and> real i * 44100 / real (length data) \<le> 200)
           [0..<length data div 2 + 1])))"
    unfolding bass_energy_of_def Let_def
    by (simp only: rfft_windowed [OF assms] len bass_mask_eq [OF n] sum.case)
  also have "map cmod (map (dft_bin (windowed (to_float data))) [0..<length data div 2 + 1]) =
      map (\<lambda>k. cmod (dft_bin (windowed (to_float data)) k)) [0..<length data div 2 + 1]"
    by simp
  finally show ?thesis
    by (simp only: boolean_index_map)
qed

lemma set_band_filter:
  "set (filter (\<lambda>i. 30 \<le> real i * 44100 / real N \<and> real i * 44100 / real N \<le> 200) [0..<N div 2 + 1])
     = band_bins N"
  by (auto simp del: upt_Suc simp add: band_bins_def)

lemma band_bins_short: "N < 2 \<Longrightarrow> band_bins N = {}"
  by (auto simp: band_bins_def)

lemma hanning_nth:
  assumes "2 \<le> N" and "m < N"
  shows "hanning N ! m = hann_window N m"
proof -
  define d where "d = real (N - 1)"
  have d: "0 < d" and dN: "real N = d + 1"
    using assms by (simp_all add: d_def)
  have arg: "pi * real_of_int (1 - int N + 2 * int m) / d = 2 * pi * real m / d - pi"
    using d by (simp add: dN field_simps)
  have "hanning N ! m = 0.5 + 0.5 * cos (pi * real_of_int (1 - int N + 2 * int m) / d)"
    using assms by (simp add: hanning_def d_def)
  also have "\<dots> = 0.5 + 0.5 * (- cos (2 * pi * real m / d))"
    by (simp only: arg cos_minus_pi)
  also have "\<dots> = hann_window N m"
    by (simp add: hann_window_def d_def field_simps)
  finally show ?thesis .
qed

lemma windowed_nth:
  "2 \<le> length data \<Longrightarrow> m < length data \<Longrightarrow>
     windowed (to_float data) ! m = real_of_int (sint (data ! m)) * hann_window (length data) m"
  by (simp add: windowed_def to_float_def length_hanning hanning_nth)

lemma dft_bin_windowed:
  assumes "2 \<le> length data"
  shows "dft_bin (windowed (to_float data)) k = windowed_bin data k"
proof -
  have "dft_bin (windowed (to_float data)) k =
      (\<Sum>m\<leftarrow>[0..<length data]. complex_of_real (windowed (to_float data) ! m) *
           cis (- 2 * pi * real m * real k / real (length data)))"
    by (simp add: dft_bin_def length_windowed)
  also have "\<dots> = (\<Sum>m\<in>set [0..<length data]. complex_of_real (windowed (to_float data) ! m) *
           cis (- 2 * pi * real m * real k / real (length data)))"
    by (rule sum_list_distinct_conv_sum_set) simp
  also have "\<dots> = windowed_bin data k"
    unfolding windowed_bin_def
    by (rule sum.cong) (auto simp: windowed_nth [OF assms] lessThan_atLeast0)
  finally show ?thesis .
qed

lemma snd_iteration:
  "snd (iteration adaptiveGain data ovf wfail s) =
     (case bass_energy_of data of
        Inr (Finite e) \<Rightarrow> snd (controller adaptiveGain e s)
      | _ \<Rightarrow> s)"
  by (simp add: iteration_def stream_read_def split: sum.splits energy.splits prod.splits)

text \<open>
  C6. For every frame of samples the energy returned by the analysis is the arithmetic
  mean of the magnitudes of the real-input transform of the Hann-windowed frame (the
  raised-cosine window, stated on its own in \<^const>\<open>hann_window\<close>) over exactly the bins
  \<open>i \<le> N div 2\<close> whose frequency \<open>i * 44100 / N\<close> lies between 30 and 200, both ends
  included. The two inputs on which no mean exists are spelled out: an empty frame makes
  the transform raise, and a band without bins makes the mean a NaN. The analysis has no
  effect on the state: after a whole pass of the loop body the state is the one the
  controller returns on the energy, and the state the pass started with when the analysis
  gives no energy; the energy itself is computed from the samples alone.
\<close>

theorem bass_energy_is_band_mean:
  "bass_energy_of data =
     (if data = [] then Inl ValueError
      else if band_bins (length data) = {} then Inr NaN
      else Inr (Finite (spec_energy data))) \<and>
   snd (iteration adaptiveGain data ovf wfail s) =
     (case bass_energy_of data of
        Inr (Finite e) \<Rightarrow> snd (controller adaptiveGain e s)
      | _ \<Rightarrow> s)"
proof (rule conjI)
  show "snd (iteration adaptiveGain data ovf wfail s) =
     (case bass_energy_of data of
        Inr (Finite e) \<Rightarrow> snd (controller adaptiveGain e s)
      | _ \<Rightarrow> s)"
    by (rule snd_iteration)
next
  show "bass_energy_of data =
     (if data = [] then Inl ValueError
      else if band_bins (length data) = {} then Inr NaN
      else Inr (Finite (spec_energy data)))"
  proof (cases "data = []")
    case True
    then show ?thesis by (simp add: bass_energy_of_empty)
  next
    case False
    define sel where "sel = filter (\<lambda>i. 30 \<le> real i * 44100 / real (length data) \<and>
        real i * 44100 / real (length data) \<le> 200) [0..<length data div 2 + 1]"
    define mags where "mags = map (\<lambda>k. cmod (dft_bin (windowed (to_float data)) k)) sel"
    have set_sel: "set sel = band_bins (length data)"
      unfolding sel_def by (rule set_band_filter)
    have dist: "distinct sel"
      unfolding sel_def by (rule distinct_filter) (rule distinct_upt)
    have len_eq: "length mags = card (band_bins (length data))"
      unfolding mags_def length_map set_sel [symmetric]
      by (rule distinct_card [symmetric, OF dist])
    have empty_iff: "mags = [] \<longleftrightarrow> band_bins (length data) = {}"
      unfolding mags_def map_is_Nil_conv set_sel [symmetric]
      by (rule set_empty [symmetric])
    have main: "bass_energy_of data = Inr (np_mean mags)"
      unfolding mags_def sel_def by (rule bass_energy_of_nonempty [OF False])
    show ?thesis
    proof (cases "band_bins (length data) = {}")
      case True
      with empty_iff have "mags = []" by simp
      then have "np_mean mags = NaN"
        by (simp add: np_mean_def)
      with main True False show ?thesis by simp
    next
      case nonempty: False
      with empty_iff have ne: "mags \<noteq> []"
        by simp
      from nonempty have long: "2 \<le> length data"
        using band_bins_short [of "length data"] by (cases "length data < 2") simp_all
      have sum_eq: "sum_list mags = (\<Sum>i\<in>band_bins (length data). cmod (windowed_bin data i))"
        unfolding mags_def
        by (simp only: sum_list_distinct_conv_sum_set [OF dist] set_sel dft_bin_windowed [OF long])
      have "np_mean mags = Finite (spec_energy data)"
        unfolding np_mean_def spec_energy_def
        using ne by (simp add: sum_eq len_eq)
      with main nonempty False show ?thesis by simp
    qed
  qed
qed

subsection \<open>The configured frame\<close>

lemma band_CHUNK: "(30 \<le> real i * 44100 / 1024 \<and> real i * 44100 / 1024 \<le> 200) = (1 \<le> i \<and> i < 5)"
  by (simp add: field_simps) linarith

lemma filter_interval: "b \<le> n \<Longrightarrow> filter (\<lambda>i. a \<le> i \<and> i < b) [0..<n] = [a..<b]"
proof (induction n arbitrary: b)
  case 0
  then show ?case by simp
next
  case (Suc n)
  show ?case
  proof (cases "b = Suc n")
    case True
    have "filter (\<lambda>i. a \<le> i \<and> i < Suc n) [0..<n] = filter (\<lambda>i. a \<le> i \<and> i < n) [0..<n]"
      by (rule filter_cong) auto
    also have "\<dots> = [a..<n]"
      by (rule Suc.IH) simp
    finally show ?thesis using True by simp
  next
    case False
    with Suc.prems have "b \<le> n" by simp
    then show ?thesis using Suc.IH [of b] by simp
  qed
qed

lemma bins_CHUNK:
  "filter (\<lambda>i. 30 \<le> real i * 44100 / real CHUNK \<and> real i * 44100 / real CHUNK \<le> 200) [0..<CHUNK div 2 + 1] = [1, 2, 3, 4]"
proof -
  have "filter (\<lambda>i. 30 \<le> real i * 44100 / real CHUNK \<and> real i * 44100 / real CHUNK \<le> 200) [0..<CHUNK div 2 + 1]
      = filter (\<lambda>i. 1 \<le> i \<and> i < 5) [0..<CHUNK div 2 + 1]"
    by (simp only: CHUNK_def band_CHUNK of_nat_numeral)
  also have "\<dots> = [1..<5]"
    by (rule filter_interval) (simp add: CHUNK_def)
  also have "\<dots> = [1, 2, 3, 4]"
    by (simp add: upt_rec)
  finally show ?thesis .
qed

lemma boolean_index_upt:
  "boolean_index [0..<n] (map P [0..<n]) = filter P [0..<n]"
  using boolean_index_map [of "\<lambda>i. i" "[0..<n]" P] by simp

lemma selected_bins_CHUNK:
  "map_sum id (boolean_index [0..<CHUNK div 2 + 1]) (bass_mask CHUNK) = Inr [1, 2, 3, 4]"
proof -
  have pos: "0 < CHUNK" by (simp add: CHUNK_def)
  show ?thesis
    by (simp only: bass_mask_eq [OF pos] map_sum.simps boolean_index_upt bins_CHUNK)
qed

lemma freqs_CHUNK:
  "map_sum id (\<lambda>freqs. map ((!) freqs) [1, 2, 3, 4]) (rfftfreq CHUNK (1 / real_of_int RATE))
     = Inr [11025 / 256, 11025 / 128, 33075 / 256, 11025 / 64]"
proof -
  have pos: "0 < CHUNK" by (simp add: CHUNK_def)
  show ?thesis
    unfolding rfftfreq_RATE [OF pos]
    by (simp add: CHUNK_def del: upt_Suc)
qed

lemma bass_energy_of_CHUNK:
  assumes "length data = CHUNK"
  shows "bass_energy_of data =
     Inr (Finite (sum_list (map (\<lambda>k. cmod (windowed_bin data k)) [1, 2, 3, 4]) / 4))"
proof -
  have ne: "data \<noteq> []" using assms by (auto simp: CHUNK_def)
  have "bass_energy_of data =
     Inr (np_mean (map (\<lambda>k. cmod (dft_bin (windowed (to_float data)) k)) [1, 2, 3, 4]))"
    by (simp only: bass_energy_of_nonempty [OF ne] assms bins_CHUNK)
  moreover have "2 \<le> length data"
    using assms by (simp add: CHUNK_def)
  ultimately show ?thesis
    by (simp add: np_mean_def dft_bin_windowed)
qed

lemma windowed_bin_zero: "windowed_bin (replicate n 0) k = 0"
  by (simp add: windowed_bin_def)

lemma bass_energy_of_silence: "bass_energy_of (replicate CHUNK 0) = Inr (Finite 0)"
  by (simp add: bass_energy_of_CHUNK windowed_bin_zero)

text \<open>
  C10. With 1024 samples per frame at 44100 Hz and the band from 30 to 200 Hz, the mask
  selects exactly the bins 1, 2, 3 and 4, whose frequencies (43.07, 86.13, 129.20 and
  172.27 Hz) are within 0.05 Hz of 43.1, 86.1, 129.2 and 172.3; for every frame of
  1024 samples the energy is therefore a finite number, the mean of four magnitudes, and
  never the NaN of an empty selection.
\<close>

theorem bass_band_four_bins:
  assumes "length data = CHUNK"
  shows "map_sum id (boolean_index [0..<CHUNK div 2 + 1]) (bass_mask CHUNK) = Inr [1, 2, 3, 4] \<and>
     map_sum id (\<lambda>freqs. map ((!) freqs) [1, 2, 3, 4]) (rfftfreq CHUNK (1 / real_of_int RATE))
       = Inr [11025 / 256, 11025 / 128, 33075 / 256, 11025 / 64] \<and>
     list_all2 (\<lambda>f c. \<bar>f - c\<bar> < 0.05) [11025 / 256, 11025 / 128, 33075 / 256, 11025 / 64]
       [43.1, 86.1, 129.2, 172.3 :: real] \<and>
     bass_energy_of data =
       Inr (Finite (sum_list (map (\<lambda>k. cmod (windowed_bin data k)) [1, 2, 3, 4]) / 4))"
proof -
  have "list_all2 (\<lambda>f c. \<bar>f - c\<bar> < 0.05) [11025 / 256, 11025 / 128, 33075 / 256, 11025 / 64]
       [43.1, 86.1, 129.2, 172.3 :: real]"
    by simp
  then show ?thesis
    by (simp only: selected_bins_CHUNK freqs_CHUNK bass_energy_of_CHUNK [OF assms] simp_thms)
qed

theorem bass_band_four_bins_witness:
  "length (replicate CHUNK (0::16 word)) = CHUNK \<and>
   bass_energy_of (replicate CHUNK 0) = Inr (Finite 0)"
  using bass_band_four_bins [of "replicate CHUNK 0"]
  by (simp add: windowed_bin_zero)

section \<open>Properties of the loop\<close>

lemma to_bytes1_to_val: "to_bytes1 (to_val e g) = Inr (word_of_int (to_val e g))"
  using to_val_range [of e g] by (simp add: to_bytes1_def)

lemma iteration_CHUNK:
  assumes "length data = CHUNK"
  shows "iteration a data ovf wfail s =
     ((if wfail then Inl SerialException
       else Inr (word_of_int (to_val (sum_list (map (\<lambda>k. cmod (windowed_bin data k)) [1, 2, 3, 4]) / 4) (gain s)))),
      snd (controller a (sum_list (map (\<lambda>k. cmod (windowed_bin data k)) [1, 2, 3, 4]) / 4) s))"
proof -
  define E where "E = sum_list (map (\<lambda>k. cmod (windowed_bin data k)) [1, 2, 3, 4]) / 4"
  have e: "bass_energy_of data = Inr (Finite E)"
    unfolding E_def by (rule bass_energy_of_CHUNK [OF assms])
  obtain v s' where c: "controller a E s = (v, s')"
    by (cases "controller a E s")
  then have v: "v = to_val E (gain s)"
    using fst_controller [of a E s] by simp
  have "iteration a data ovf wfail s =
      ((if wfail then Inl SerialException else Inr (word_of_int (to_val E (gain s)))),
       snd (controller a E s))"
    by (simp add: iteration_def stream_read_def e c v to_bytes1_to_val)
  then show ?thesis
    unfolding E_def .
qed

lemma controller_silence:
  "controller True 0 s = (0, \<lparr>gain = gain s, gainTimer = 0, prevVal = 0\<rparr>)"
  by (simp add: controller_def adaptive_update_def Let_def edge_reset_def zone_update_def
      to_val_def py_int_def np_clip_def)

lemma iteration_silence:
  "iteration True (replicate CHUNK 0) ovf wfail s =
     ((if wfail then Inl SerialException else Inr 0),
      \<lparr>gain = gain s, gainTimer = 0, prevVal = 0\<rparr>)"
proof -
  have len: "length (replicate CHUNK (0::16 word)) = CHUNK" by simp
  show ?thesis
    unfolding iteration_CHUNK [OF len]
    by (simp add: windowed_bin_zero controller_silence to_val_def py_int_def np_clip_def)
qed

text \<open>
  C7. On a sustained run of all-zero frames in adaptive mode, from any state: the byte
  sent is 0 on every frame, the timer is 0 after every frame, and the gain is the one the
  run started with; the loop is still running after any number of such frames.
\<close>

theorem silence_idempotent:
  "processing_loop True (replicate (Suc n) (Frame (replicate CHUNK 0) False False)) (s, out) =
     (Running, \<lparr>gain = gain s, gainTimer = 0, prevVal = 0\<rparr>, out @ replicate (Suc n) 0)"
proof (induction n arbitrary: s out)
  case 0
  show ?case by (simp add: iteration_silence)
next
  case (Suc n)
  have "processing_loop True (replicate (Suc (Suc n)) (Frame (replicate CHUNK 0) False False)) (s, out) =
      processing_loop True (replicate (Suc n) (Frame (replicate CHUNK 0) False False))
        (\<lparr>gain = gain s, gainTimer = 0, prevVal = 0\<rparr>, out @ [0])"
    by (simp add: iteration_silence)
  also have "\<dots> = (Running, \<lparr>gain = gain s, gainTimer = 0, prevVal = 0\<rparr>,
      (out @ [0]) @ replicate (Suc n) 0)"
    by (simp only: Suc.IH GainState.simps)
  finally show ?case
    by (simp add: replicate_app_Cons_same)
qed

text \<open>
  C8, as stated: neither a capture overflow nor a failing serial write ends the loop. It
  fails on a trace of two frames of which the first meets a failing write: the exception
  leaves the loop, the second frame is never processed and nothing has been written.
\<close>

theorem write_failure_counterexample:
  "processing_loop True
     [Frame (replicate CHUNK 0) False True, Frame (replicate CHUNK 0) False False]
     (init_state, []) = (Raised SerialException, init_state, [])"
  by (simp add: iteration_silence init_state_def)

text \<open>
  C8, amended: over any run of frames of 1024 samples, a capture overflow never ends
  the loop (the read is made with \<^verbatim>\<open>exception_on_overflow=False\<close>); a failing serial
  write does: its exception is not caught (the only handler is for
  \<^verbatim>\<open>KeyboardInterrupt\<close>), so the loop ends with it at the first frame whose write fails,
  and keeps running exactly when no write fails.
\<close>

theorem loop_status_per_frame_failures:
  assumes "list_all (\<lambda>ev. ev \<noteq> Interrupt \<and> length (frame_data ev) = CHUNK) evs"
  shows "fst (processing_loop a evs (s, out)) =
     (if list_ex write_fails evs then Raised SerialException else Running)"
  using assms
proof (induction evs arbitrary: s out)
  case Nil
  show ?case by simp
next
  case (Cons ev evs)
  then obtain d ovf wfail where ev: "ev = Frame d ovf wfail" and len: "length d = CHUNK"
    by (cases ev) auto
  from Cons.prems have rest: "list_all (\<lambda>ev. ev \<noteq> Interrupt \<and> length (frame_data ev) = CHUNK) evs"
    by simp
  show ?case
  proof (cases wfail)
    case True
    then show ?thesis
      by (simp add: ev iteration_CHUNK [OF len])
  next
    case False
    then show ?thesis
      using Cons.IH [OF rest] by (simp add: ev iteration_CHUNK [OF len])
  qed
qed

theorem loop_status_per_frame_failures_witness:
  "list_all (\<lambda>ev. ev \<noteq> Interrupt \<and> length (frame_data ev) = CHUNK)
     [Frame (replicate CHUNK 0) True False, Frame (replicate CHUNK 0) False True,
      Frame (replicate CHUNK 0) False False] \<and>
   fst (processing_loop True
     [Frame (replicate CHUNK 0) True False, Frame (replicate CHUNK 0) False True,
      Frame (replicate CHUNK 0) False False] (init_state, [])) = Raised SerialException"
  using loop_status_per_frame_failures [of "[Frame (replicate CHUNK 0) True False, Frame (replicate CHUNK 0) False True,
      Frame (replicate CHUNK 0) False False]" True init_state "[]"]
  by simp

end
